theory Spec2Isabelle
  imports Main
begin

section \<open>Telegram channel downloader: strings and paths\<close>

text \<open>
  The source is \<^verbatim>\<open>src/telegram_channel_downloader.py\<close>. A Python \<^verbatim>\<open>str\<close> is modelled
  as a HOL \<open>string\<close>, one \<open>char\<close> standing for one Python character, so \<open>length\<close> and
  \<open>take\<close> count what Python's \<^verbatim>\<open>len\<close> and slicing count.
\<close>

subsection \<open>String primitives of Python used by the source\<close>

text \<open>\<^verbatim>\<open>s.replace(c, r)\<close> for a one-character pattern \<open>c\<close>.\<close>

definition replace_char :: "char \<Rightarrow> char \<Rightarrow> string \<Rightarrow> string" where
  "replace_char c r s = map (\<lambda>x. if x = c then r else x) s"

text \<open>\<^verbatim>\<open>s.startswith(p)\<close>.\<close>

fun startswith :: "string \<Rightarrow> string \<Rightarrow> bool" where
  "startswith s [] = True"
| "startswith [] (p # ps) = False"
| "startswith (x # xs) (p # ps) = (x = p \<and> startswith xs ps)"

text \<open>\<^verbatim>\<open>sub in s\<close> on strings: \<open>sub\<close> occurs in \<open>s\<close> as a contiguous substring.\<close>

fun str_in :: "string \<Rightarrow> string \<Rightarrow> bool" where
  "str_in sub [] = (sub = [])"
| "str_in sub (x # xs) = (startswith (x # xs) sub \<or> str_in sub xs)"

text \<open>\<^verbatim>\<open>s.split(c)\<close> for a one-character separator: never empty, one more piece than
  there are separators.\<close>

fun split_on :: "char \<Rightarrow> string \<Rightarrow> string list" where
  "split_on c [] = [[]]"
| "split_on c (x # xs) =
     (if x = c then [] # split_on c xs
      else (case split_on c xs of
              [] \<Rightarrow> [[x]]
            | p # ps \<Rightarrow> (x # p) # ps))"

text \<open>\<^verbatim>\<open>sep.join(parts)\<close>.\<close>

fun join :: "string \<Rightarrow> string list \<Rightarrow> string" where
  "join sep [] = []"
| "join sep [p] = p"
| "join sep (p # q # ps) = p @ sep @ join sep (q # ps)"

text \<open>\<^verbatim>\<open>str(n)\<close> for a Python integer: decimal digits, a leading minus sign when
  negative.\<close>

definition digit_char :: "nat \<Rightarrow> char" where
  "digit_char d = ''0123456789'' ! (d mod 10)"

fun str_nat :: "nat \<Rightarrow> string" where
  "str_nat n = (if n < 10 then [digit_char n] else str_nat (n div 10) @ [digit_char (n mod 10)])"

declare str_nat.simps [simp del]

definition str_int :: "int \<Rightarrow> string" where
  "str_int i = (if i < 0 then CHR ''-'' # str_nat (nat (- i)) else str_nat (nat i))"

subsection \<open>\<^verbatim>\<open>sanitize_filename\<close> (lines 84 to 89)\<close>

text \<open>The string \<^verbatim>\<open>'<>:"/\\|?*'\<close>: the double quote is character 0x22 and the
  backslash 0x5C.\<close>

definition invalid_chars :: string where
  "invalid_chars = [CHR ''<'', CHR ''>'', CHR '':'', CHR 0x22, CHR ''/'', CHR 0x5C,
                    CHR ''|'', CHR ''?'', CHR ''*'']"

text \<open>The \<^verbatim>\<open>for char in invalid_chars\<close> loop rebinding \<^verbatim>\<open>filename\<close>, then the
  slice \<^verbatim>\<open>filename[:255]\<close>.\<close>

fun sanitize_loop :: "string \<Rightarrow> string \<Rightarrow> string" where
  "sanitize_loop [] filename = filename"
| "sanitize_loop (char # rest) filename = sanitize_loop rest (replace_char char CHR ''_'' filename)"

definition sanitize_filename :: "string \<Rightarrow> string" where
  "sanitize_filename filename = take 255 (sanitize_loop invalid_chars filename)"

subsection \<open>\<^verbatim>\<open>pathlib.Path\<close> on a POSIX system\<close>

text \<open>
  A path is its anchor (absolute or not) and its components. Parsing a string drops empty
  components and \<^verbatim>\<open>.\<close> components and keeps \<^verbatim>\<open>..\<close>, as \<^verbatim>\<open>pathlib\<close> does;
  \<^verbatim>\<open>p / s\<close> appends the components of \<open>s\<close>, or is \<open>s\<close> alone when \<open>s\<close> is absolute.
\<close>

datatype path = Path (is_absolute: bool) (parts: "string list")

definition parse_path :: "string \<Rightarrow> path" where
  "parse_path s =
     Path (startswith s ''/'') (filter (\<lambda>p. p \<noteq> [] \<and> p \<noteq> ''.'') (split_on CHR ''/'' s))"

definition path_div :: "path \<Rightarrow> string \<Rightarrow> path" where
  "path_div p s =
     (case parse_path s of
        Path True qs \<Rightarrow> Path True qs
      | Path False qs \<Rightarrow> Path (is_absolute p) (parts p @ qs))"

definition path_str :: "path \<Rightarrow> string" where
  "path_str p =
     (if is_absolute p then CHR ''/'' # join ''/'' (parts p)
      else if parts p = [] then ''.''
      else join ''/'' (parts p))"

section \<open>Data of the downloader\<close>

subsection \<open>Messages as the Telegram client hands them over\<close>

text \<open>
  \<^verbatim>\<open>hasattr(attr, 'file_name')\<close> holds for the filename attribute only;
  \<^verbatim>\<open>hasattr(doc, 'mime_type')\<close> fails when \<open>mime_type\<close> is \<open>None\<close>.
  \<open>MessageMediaOther\<close> stands for every media class the source does not name
  (polls, contacts, locations).
\<close>

datatype attribute = DocumentAttributeFilename (file_name: string) | DocumentAttributeOther

record document =
  mime_type :: "string option"
  attributes :: "attribute list"

datatype media =
    MessageMediaPhoto
  | MessageMediaDocument document
  | MessageMediaWebPage
  | MessageMediaOther

text \<open>\<open>service\<close> is \<^verbatim>\<open>isinstance(message, MessageService)\<close>; \<open>msg_date\<close> is the date
  already in ISO format, \<open>None\<close> when the message has none.\<close>

record message =
  service :: bool
  msg_id :: int
  msg_date :: "string option"
  msg_text :: "string option"
  msg_media :: "media option"
  msg_views :: "int option"
  msg_forwards :: "int option"

subsection \<open>Exceptions\<close>

text \<open>The subclasses of \<^verbatim>\<open>Exception\<close> that the source tells apart: a missing
  attribute, the rate limit with its seconds, and any other one.\<close>

datatype exn = AttributeError string | FloodWaitError nat | OtherException string

subsection \<open>The downloader object and what it writes\<close>

text \<open>\<^verbatim>\<open>self.stats\<close>, a dictionary with six fixed keys (lines 58 to 65).\<close>

record stats =
  messages :: int
  photos :: int
  videos :: int
  documents :: int
  audio :: int
  errors :: int

text \<open>One entry of \<^verbatim>\<open>messages_data\<close> (lines 214 to 221).\<close>

record message_data =
  rec_id :: int
  rec_date :: "string option"
  rec_text :: string
  media_path :: "string option"
  rec_views :: "int option"
  rec_forwards :: "int option"

datatype log_entry =
    Info string
  | Warning_rate_limited nat
  | Error_downloading_media int exn
  | Error_could_not_find_channel string exn
  | Error_downloading_channel exn

datatype txt_block =
    Header string
  | Block int "string option" "string option" "string option"

text \<open>
  The state a run reads and writes: the counters, every call of the client's
  \<^verbatim>\<open>download_media\<close> (message id and target path), every \<^verbatim>\<open>asyncio.sleep\<close>, the
  logger's records, the directories made, the transcript \<^verbatim>\<open>messages.txt\<close>, the
  list \<^verbatim>\<open>messages_data\<close>, the file \<^verbatim>\<open>messages.json\<close> once written, and whether the
  client is connected.
\<close>

record state =
  stats :: stats
  fetch_calls :: "(int \<times> string) list"
  sleeps :: "nat list"
  logged :: "log_entry list"
  directories :: "string list"
  messages_txt :: "txt_block list"
  messages_data :: "message_data list"
  messages_json :: "message_data list option"
  connected :: bool

text \<open>The state after \<^verbatim>\<open>__init__\<close> (lines 44 to 65).\<close>

definition initial_state :: state where
  "initial_state =
     \<lparr>stats = \<lparr>messages = 0, photos = 0, videos = 0, documents = 0, audio = 0, errors = 0\<rparr>,
      fetch_calls = [], sleeps = [], logged = [], directories = [], messages_txt = [],
      messages_data = [], messages_json = None, connected = False\<rparr>"

subsection \<open>The remote side\<close>

text \<open>
  What the client's \<^verbatim>\<open>download_media\<close> does is decided by the remote side: the
  transport gives the outcome of the \<open>n\<close>-th call of a run.
\<close>

datatype fetch_result = FetchOk | FetchRaises exn

type_synonym transport = "nat \<Rightarrow> fetch_result"

record channel =
  title :: "string option"

record remote =
  connect_raises :: "exn option"
  get_entity_result :: "exn + channel"
  iter_messages :: "message list"
  fetch :: transport
  now :: string

subsection \<open>Attribute lookup on \<^verbatim>\<open>self\<close>\<close>

text \<open>
  The names bound on a \<^verbatim>\<open>TelegramChannelDownloader\<close>: the five instance attributes set
  in \<^verbatim>\<open>__init__\<close> and the six methods of the class (lines 44, 67, 84, 91, 106, 159).
  \<^verbatim>\<open>self.name\<close> for any other name that \<^verbatim>\<open>object\<close> does not have raises
  \<^verbatim>\<open>AttributeError\<close>.
\<close>

definition class_attributes :: "string list" where
  "class_attributes =
     [''api_id'', ''api_hash'', ''phone'', ''client'', ''stats'',
      ''__init__'', ''connect'', ''sanitize_filename'', ''create_download_directory'',
      ''download_media'', ''download_channel'']"

definition hasattr_self :: "string \<Rightarrow> bool" where
  "hasattr_self name = (name \<in> set class_attributes)"

section \<open>The operations\<close>

subsection \<open>\<^verbatim>\<open>create_download_directory\<close> (lines 91 to 104)\<close>

text \<open>The timestamp is taken first, then \<^verbatim>\<open>self._sanitize_filename\<close> is looked up and
  called; the five \<^verbatim>\<open>mkdir\<close> calls follow.\<close>

definition create_download_directory :: "string \<Rightarrow> string \<Rightarrow> state \<Rightarrow> (exn + path) \<times> state" where
  "create_download_directory timestamp channel_name st =
     (if hasattr_self ''_sanitize_filename'' then
        (let safe_channel_name = sanitize_filename channel_name;
             base_dir = parse_path (''downloads/'' @ safe_channel_name @ ''_'' @ timestamp);
             made = map (\<lambda>d. path_str (path_div base_dir d))
                      [''photos'', ''videos'', ''documents'', ''audio'', ''messages'']
         in (Inr base_dir, st\<lparr>directories := directories st @ made\<rparr>))
      else (Inl (AttributeError ''_sanitize_filename''), st))"

subsection \<open>\<^verbatim>\<open>download_media\<close> (lines 106 to 157)\<close>

text \<open>\<^verbatim>\<open>await self.client.download_media(message, file_path)\<close>: the call is recorded and
  the transport decides its outcome.\<close>

definition client_download_media :: "transport \<Rightarrow> message \<Rightarrow> path \<Rightarrow> state \<Rightarrow> fetch_result \<times> state" where
  "client_download_media tr m file_path st =
     (tr (length (fetch_calls st)),
      st\<lparr>fetch_calls := fetch_calls st @ [(msg_id m, path_str file_path)]\<rparr>)"

text \<open>Lines 122 to 130: the subdirectory of a document, and its counter incremented.\<close>

definition document_subdir :: "string \<Rightarrow> string" where
  "document_subdir mime =
     (if str_in ''video'' mime then ''videos''
      else if str_in ''audio'' mime \<or> str_in ''ogg'' mime then ''audio''
      else ''documents'')"

definition count_document :: "string \<Rightarrow> stats \<Rightarrow> stats" where
  "count_document mime s =
     (if str_in ''video'' mime then s\<lparr>videos := videos s + 1\<rparr>
      else if str_in ''audio'' mime \<or> str_in ''ogg'' mime then s\<lparr>audio := audio s + 1\<rparr>
      else s\<lparr>documents := documents s + 1\<rparr>)"

text \<open>Lines 134 to 137: the first attribute that has a \<^verbatim>\<open>file_name\<close>.\<close>

fun first_file_name :: "attribute list \<Rightarrow> string option" where
  "first_file_name [] = None"
| "first_file_name (DocumentAttributeFilename f # rest) = Some f"
| "first_file_name (DocumentAttributeOther # rest) = first_file_name rest"

text \<open>Lines 139 to 145: \<^verbatim>\<open>not filename\<close> holds for \<open>None\<close> and for the empty string.\<close>

definition fetch_document ::
  "transport \<Rightarrow> message \<Rightarrow> path \<Rightarrow> string \<Rightarrow> string \<Rightarrow> string option \<Rightarrow> state
     \<Rightarrow> (exn + string option) \<times> state" where
  "fetch_document tr m base_dir subdir mime filename st =
     (let ext = (if CHR ''/'' \<in> set mime then last (split_on CHR ''/'' mime) else ''bin'');
          filename' = (case filename of
                         None \<Rightarrow> ''file_'' @ str_int (msg_id m) @ ''.'' @ ext
                       | Some [] \<Rightarrow> ''file_'' @ str_int (msg_id m) @ ''.'' @ ext
                       | Some f \<Rightarrow> f);
          file_path = path_div (path_div base_dir subdir) filename'
      in case client_download_media tr m file_path st of
           (FetchRaises e, st1) \<Rightarrow> (Inl e, st1)
         | (FetchOk, st1) \<Rightarrow> (Inr (Some (path_str file_path)), st1))"

text \<open>The body of the \<^verbatim>\<open>try\<close> (lines 109 to 147): its value or the exception it
  raises, and the state it leaves.\<close>

definition download_media_try ::
  "transport \<Rightarrow> message \<Rightarrow> path \<Rightarrow> state \<Rightarrow> (exn + string option) \<times> state" where
  "download_media_try tr m base_dir st =
     (case msg_media m of
        None \<Rightarrow> (Inr None, st)
      | Some MessageMediaPhoto \<Rightarrow>
          (let file_path = path_div (path_div base_dir ''photos'')
                             (''photo_'' @ str_int (msg_id m) @ ''.jpg'')
           in case client_download_media tr m file_path st of
                (FetchRaises e, st1) \<Rightarrow> (Inl e, st1)
              | (FetchOk, st1) \<Rightarrow>
                  (Inr (Some (path_str file_path)),
                   st1\<lparr>stats := (stats st1)\<lparr>photos := photos (stats st1) + 1\<rparr>\<rparr>))
      | Some (MessageMediaDocument doc) \<Rightarrow>
          (let mime = (case mime_type doc of Some t \<Rightarrow> t | None \<Rightarrow> []);
               subdir = document_subdir mime;
               st1 = st\<lparr>stats := count_document mime (stats st)\<rparr>
           in case first_file_name (attributes doc) of
                None \<Rightarrow> fetch_document tr m base_dir subdir mime None st1
              | Some f \<Rightarrow>
                  (if hasattr_self ''_sanitize_filename''
                   then fetch_document tr m base_dir subdir mime (Some (sanitize_filename f)) st1
                   else (Inl (AttributeError ''_sanitize_filename''), st1)))
      | Some MessageMediaWebPage \<Rightarrow> (Inr None, st)
      | Some MessageMediaOther \<Rightarrow> (Inr None, st))"

text \<open>
  The whole method. The handler of \<^verbatim>\<open>FloodWaitError\<close> logs, sleeps and calls
  \<^verbatim>\<open>self._download_media\<close>; what that call raises leaves the method, since the second
  handler guards the \<^verbatim>\<open>try\<close> body only. The recursion depth is bounded by \<open>k\<close>: the
  result is \<open>None\<close> when a further call would exceed it.
\<close>

fun download_media ::
  "nat \<Rightarrow> transport \<Rightarrow> message \<Rightarrow> path \<Rightarrow> state \<Rightarrow> (exn + string option) option \<times> state" where
  "download_media k tr m base_dir st =
     (case download_media_try tr m base_dir st of
        (Inr r, st1) \<Rightarrow> (Some (Inr r), st1)
      | (Inl (FloodWaitError seconds), st1) \<Rightarrow>
          (let st2 = st1\<lparr>logged := logged st1 @ [Warning_rate_limited seconds],
                         sleeps := sleeps st1 @ [seconds]\<rparr>
           in if hasattr_self ''_download_media''
              then (case k of
                      0 \<Rightarrow> (None, st2)
                    | Suc k' \<Rightarrow> download_media k' tr m base_dir st2)
              else (Some (Inl (AttributeError ''_download_media'')), st2))
      | (Inl e, st1) \<Rightarrow>
          (Some (Inr None),
           st1\<lparr>logged := logged st1 @ [Error_downloading_media (msg_id m) e],
               stats := (stats st1)\<lparr>errors := errors (stats st1) + 1\<rparr>\<rparr>))"

declare download_media.simps [simp del]

subsection \<open>\<^verbatim>\<open>download_channel\<close> (lines 159 to 259)\<close>

text \<open>Lines 206: the message is counted.\<close>

definition count_message :: "state \<Rightarrow> state" where
  "count_message st = st\<lparr>stats := (stats st)\<lparr>messages := messages (stats st) + 1\<rparr>\<rparr>"

text \<open>Lines 209 to 211: the media path of a message.\<close>

definition message_media_path ::
  "nat \<Rightarrow> transport \<Rightarrow> path \<Rightarrow> message \<Rightarrow> state \<Rightarrow> (exn + string option) option \<times> state" where
  "message_media_path k tr base_dir m st =
     (if msg_media m \<noteq> None \<and> msg_media m \<noteq> Some MessageMediaWebPage
      then (if hasattr_self ''_download_media''
            then download_media k tr m base_dir st
            else (Some (Inl (AttributeError ''_download_media'')), st))
      else (Some (Inr None), st))"

text \<open>Lines 214 to 236: the record is appended to \<^verbatim>\<open>messages_data\<close>, the block to the
  transcript, and every hundredth message is announced.\<close>

definition record_message :: "message \<Rightarrow> string option \<Rightarrow> state \<Rightarrow> state" where
  "record_message m path st =
     (let message_data =
            \<lparr>rec_id = msg_id m, rec_date = msg_date m,
             rec_text = (case msg_text m of None \<Rightarrow> [] | Some t \<Rightarrow> t),
             media_path = path, rec_views = msg_views m, rec_forwards = msg_forwards m\<rparr>;
          block = Block (msg_id m) (msg_date m)
                    (case msg_text m of None \<Rightarrow> None | Some [] \<Rightarrow> None | Some t \<Rightarrow> Some t)
                    (case path of None \<Rightarrow> None | Some [] \<Rightarrow> None | Some p \<Rightarrow> Some p);
          st1 = st\<lparr>messages_data := messages_data st @ [message_data],
                   messages_txt := messages_txt st @ [block]\<rparr>
      in if messages (stats st1) mod 100 = 0
         then st1\<lparr>logged := logged st1 @
                     [Info (''Downloaded '' @ str_int (messages (stats st1)) @ '' messages...'')]\<rparr>
         else st1)"

text \<open>The \<^verbatim>\<open>async for\<close> loop (lines 201 to 236) over the messages the client yields.\<close>

fun process_messages ::
  "nat \<Rightarrow> transport \<Rightarrow> path \<Rightarrow> message list \<Rightarrow> state \<Rightarrow> (exn + unit) option \<times> state" where
  "process_messages k tr base_dir [] st = (Some (Inr ()), st)"
| "process_messages k tr base_dir (m # ms) st =
     (if service m then process_messages k tr base_dir ms st
      else (case message_media_path k tr base_dir m (count_message st) of
              (None, st1) \<Rightarrow> (None, st1)
            | (Some (Inl e), st1) \<Rightarrow> (Some (Inl e), st1)
            | (Some (Inr path), st1) \<Rightarrow>
                process_messages k tr base_dir ms (record_message m path st1)))"

text \<open>The body of the outer \<^verbatim>\<open>try\<close> (lines 168 to 252). The closing statistics
  (lines 243 to 252) are one \<open>Info\<close> record; writing files is taken to succeed.\<close>

definition download_channel_try ::
  "nat \<Rightarrow> remote \<Rightarrow> string \<Rightarrow> state \<Rightarrow> (exn + unit) option \<times> state" where
  "download_channel_try k rm channel_username st =
     (case connect_raises rm of
        Some e \<Rightarrow> (Some (Inl e), st)
      | None \<Rightarrow>
          (let st1 = st\<lparr>connected := True,
                        logged := logged st @ [Info ''Successfully connected to Telegram'']\<rparr>;
               username = (if startswith channel_username ''@''
                           then drop 1 channel_username else channel_username);
               st2 = st1\<lparr>logged := logged st1 @ [Info (''Fetching channel: '' @ username)]\<rparr>
           in case get_entity_result rm of
                Inl e \<Rightarrow>
                  (Some (Inr ()),
                   st2\<lparr>logged := logged st2 @ [Error_could_not_find_channel username e]\<rparr>)
              | Inr channel \<Rightarrow>
                  (let name = (case title channel of
                                 None \<Rightarrow> username | Some [] \<Rightarrow> username | Some t \<Rightarrow> t)
                   in if hasattr_self ''_create_download_directory''
                      then (case create_download_directory (now rm) name st2 of
                              (Inl e, st3) \<Rightarrow> (Some (Inl e), st3)
                            | (Inr base_dir, st3) \<Rightarrow>
                                (let st4 = st3\<lparr>logged := logged st3 @
                                                 [Info (''Saving to: '' @ path_str base_dir)],
                                               messages_data := [],
                                               messages_txt := [Header name]\<rparr>;
                                     st5 = st4\<lparr>logged := logged st4 @ [Info ''Starting download...'']\<rparr>
                                 in case process_messages k (fetch rm) base_dir (iter_messages rm) st5 of
                                      (Some (Inr u), st6) \<Rightarrow>
                                        (Some (Inr ()),
                                         st6\<lparr>messages_json := Some (messages_data st6),
                                             logged := logged st6 @ [Info ''Download completed!'']\<rparr>)
                                    | (r, st6) \<Rightarrow> (r, st6)))
                      else (Some (Inl (AttributeError ''_create_download_directory'')), st2))))"

text \<open>The method: the outer handler logs and raises again, and \<^verbatim>\<open>finally\<close> disconnects
  on every path.\<close>

definition download_channel ::
  "nat \<Rightarrow> remote \<Rightarrow> string \<Rightarrow> state \<Rightarrow> (exn + unit) option \<times> state" where
  "download_channel k rm channel_username st =
     (case download_channel_try k rm channel_username st of
        (Some (Inl e), st1) \<Rightarrow>
          (Some (Inl e), st1\<lparr>logged := logged st1 @ [Error_downloading_channel e],
                             connected := False\<rparr>)
      | (r, st1) \<Rightarrow> (r, st1\<lparr>connected := False\<rparr>))"

section \<open>Notions of the specification and concrete inputs\<close>




text \<open>A failure is a rate limit when it is a \<^verbatim>\<open>FloodWaitError\<close>.\<close>

definition is_rate_limit :: "exn \<Rightarrow> bool" where
  "is_rate_limit e = (case e of FloodWaitError seconds \<Rightarrow> True | _ \<Rightarrow> False)"

definition text_message :: "int \<Rightarrow> string \<Rightarrow> message" where
  "text_message i t =
     \<lparr>service = False, msg_id = i, msg_date = Some ''2024-01-01T00:00:00'',
      msg_text = Some t, msg_media = None, msg_views = Some 0, msg_forwards = None\<rparr>"

definition media_message :: "int \<Rightarrow> media \<Rightarrow> message" where
  "media_message i md =
     \<lparr>service = False, msg_id = i, msg_date = Some ''2024-01-01T00:00:00'',
      msg_text = None, msg_media = Some md, msg_views = Some 0, msg_forwards = None\<rparr>"

definition news_dir :: path where
  "news_dir = parse_path ''downloads/News_20240101_000000''"

text \<open>Scenario A: the channel resolves and yields three text-only messages.\<close>

definition scenario_A :: remote where
  "scenario_A =
     \<lparr>connect_raises = None,
      get_entity_result = Inr \<lparr>title = Some ''News''\<rparr>,
      iter_messages = [text_message 3 ''third'', text_message 2 ''second'', text_message 1 ''first''],
      fetch = (\<lambda>n. FetchOk),
      now = ''20240101_000000''\<rparr>"

text \<open>Scenario B: a document with declared filename and mime type.\<close>

definition report_pdf :: message where
  "report_pdf =
     media_message 10
       (MessageMediaDocument
          \<lparr>mime_type = Some ''application/pdf'',
           attributes = [DocumentAttributeFilename ''report.pdf'']\<rparr>)"

text \<open>Scenario C: a video document without declared filename, message 42.\<close>

definition video_42 :: message where
  "video_42 =
     media_message 42
       (MessageMediaDocument \<lparr>mime_type = Some ''video/mp4'', attributes = [DocumentAttributeOther]\<rparr>)"

text \<open>Scenario D: the first fetch is rate limited for five seconds, the next ones succeed.\<close>

definition flood_once :: transport where
  "flood_once n = (if n = 0 then FetchRaises (FloodWaitError 5) else FetchOk)"



definition unresolved_channel :: remote where
  "unresolved_channel =
     \<lparr>connect_raises = None,
      get_entity_result = Inl (OtherException ''no such channel''),
      iter_messages = [text_message 1 ''first''],
      fetch = (\<lambda>n. FetchOk),
      now = ''20240101_000000''\<rparr>"

section \<open>Properties\<close>

subsection \<open>Attribute lookup\<close>

lemma no_private_sanitize: "\<not> hasattr_self ''_sanitize_filename''"
  by (simp add: hasattr_self_def class_attributes_def)

lemma no_private_create: "\<not> hasattr_self ''_create_download_directory''"
  by (simp add: hasattr_self_def class_attributes_def)

lemma no_private_download: "\<not> hasattr_self ''_download_media''"
  by (simp add: hasattr_self_def class_attributes_def)

subsection \<open>Sanitization\<close>

lemma sanitize_loop_map:
  "CHR ''_'' \<notin> set cs \<Longrightarrow>
   sanitize_loop cs s = map (\<lambda>x. if x \<in> set cs then CHR ''_'' else x) s"
proof (induction cs arbitrary: s)
  case Nil
  then show ?case by simp
next
  case (Cons c cs)
  then show ?case by (auto simp: replace_char_def)
qed

lemma underscore_valid: "CHR ''_'' \<notin> set invalid_chars"
  by (simp add: invalid_chars_def)

lemma sanitize_filename_map:
  "sanitize_filename s =
   take 255 (map (\<lambda>x. if x \<in> set invalid_chars then CHR ''_'' else x) s)"
  by (simp add: sanitize_filename_def sanitize_loop_map [OF underscore_valid])

text \<open>
  Claim C8. Sanitizing is idempotent; a sanitized string contains none of the characters
  \<^verbatim>\<open>< > : " / \ | ? *\<close> and has at most 255 characters.
\<close>

theorem sanitize_filename_idempotent_clean_bounded:
  "sanitize_filename (sanitize_filename s) = sanitize_filename s
   \<and> set (sanitize_filename s) \<inter> set invalid_chars = {}
   \<and> length (sanitize_filename s) \<le> 255"
proof -
  let ?f = "\<lambda>x. if x \<in> set invalid_chars then CHR ''_'' else x"
  have ff: "?f (?f x) = ?f x" for x
    using underscore_valid by simp
  have idem: "sanitize_filename (sanitize_filename s) = sanitize_filename s"
  proof -
    have "map ?f (map ?f s) = map ?f s"
      using ff by (simp add: comp_def)
    then have "take 255 (map ?f (take 255 (map ?f s))) = take 255 (map ?f s)"
      by (simp add: take_map)
    then show ?thesis
      unfolding sanitize_filename_map .
  qed
  have clean: "set (sanitize_filename s) \<inter> set invalid_chars = {}"
  proof -
    have "set (map ?f s) \<inter> set invalid_chars = {}"
      using underscore_valid by auto
    moreover have "set (sanitize_filename s) \<subseteq> set (map ?f s)"
      unfolding sanitize_filename_map by (rule set_take_subset)
    ultimately show ?thesis by blast
  qed
  have "length (sanitize_filename s) \<le> 255"
    by (simp add: sanitize_filename_def)
  with idem clean show ?thesis by simp
qed

subsection \<open>Splitting, digits and path components\<close>


lemma split_on_no_sep: "c \<notin> set s \<Longrightarrow> split_on c s = [s]"
  by (induction s) auto

lemma split_on_append:
  "c \<notin> set b \<Longrightarrow> \<exists>p ps. split_on c (a @ c # b) = p # ps @ [b]"
proof (induction a)
  case Nil
  then show ?case by (simp add: split_on_no_sep)
next
  case (Cons x a)
  then obtain p ps where "split_on c (a @ c # b) = p # ps @ [b]"
    by blast
  then show ?case by simp
qed

lemma last_split_on_append: "c \<notin> set b \<Longrightarrow> last (split_on c (a @ c # b)) = b"
  using split_on_append [of c b a] by auto
















subsection \<open>The scenarios of the specification on the code\<close>

text \<open>
  Claim C1, scenario A. On a channel that resolves and yields three text-only messages,
  the run of \<^verbatim>\<open>download_channel\<close> does not complete: looking up
  \<^verbatim>\<open>self._create_download_directory\<close> (line 184) raises \<^verbatim>\<open>AttributeError\<close>, which
  the outer handler logs and raises again. No message is counted, no record is kept, no
  structured log is written and no directory is made.
\<close>

theorem scenario_A_run_raises:
  "fst (download_channel k scenario_A ''@news'' initial_state)
     = Some (Inl (AttributeError ''_create_download_directory''))
   \<and> messages (stats (snd (download_channel k scenario_A ''@news'' initial_state))) = 0
   \<and> messages_data (snd (download_channel k scenario_A ''@news'' initial_state)) = []
   \<and> messages_json (snd (download_channel k scenario_A ''@news'' initial_state)) = None
   \<and> directories (snd (download_channel k scenario_A ''@news'' initial_state)) = []"
  by (simp add: download_channel_def download_channel_try_def scenario_A_def
      initial_state_def no_private_create)

text \<open>
  Claim C2, the rate limit. When the fetch of a photo signals a rate limit of five
  seconds, \<^verbatim>\<open>download_media\<close> sleeps five seconds and then raises
  \<^verbatim>\<open>AttributeError\<close> from the lookup of \<^verbatim>\<open>self._download_media\<close> (line 152): the
  fetch is not retried, and the failure leaves the method.
\<close>

theorem rate_limit_not_retried:
  "fst (download_media k flood_once (media_message 7 MessageMediaPhoto) news_dir initial_state)
     = Some (Inl (AttributeError ''_download_media''))
   \<and> sleeps (snd (download_media k flood_once (media_message 7 MessageMediaPhoto)
                     news_dir initial_state)) = [5]
   \<and> length (fetch_calls (snd (download_media k flood_once (media_message 7 MessageMediaPhoto)
                                 news_dir initial_state))) = 1"
  by (simp add: download_media.simps download_media_try_def media_message_def
      client_download_media_def initial_state_def flood_once_def no_private_download)

text \<open>
  Claim C3, scenario B. For the document with declared filename \<^verbatim>\<open>report.pdf\<close> and
  mime type \<^verbatim>\<open>application/pdf\<close> the documents counter is incremented, but the lookup
  of \<^verbatim>\<open>self._sanitize_filename\<close> (line 136) raises \<^verbatim>\<open>AttributeError\<close>, which the
  second handler counts as an error: nothing is fetched and the media path is null.
\<close>

theorem scenario_B_no_path:
  "fst (download_media k (\<lambda>n. FetchOk) report_pdf news_dir initial_state) = Some (Inr None)
   \<and> fetch_calls (snd (download_media k (\<lambda>n. FetchOk) report_pdf news_dir initial_state)) = []
   \<and> documents (stats (snd (download_media k (\<lambda>n. FetchOk) report_pdf news_dir
                               initial_state))) = 1
   \<and> errors (stats (snd (download_media k (\<lambda>n. FetchOk) report_pdf news_dir
                            initial_state))) = 1"
  by (simp add: download_media.simps download_media_try_def report_pdf_def media_message_def
      initial_state_def no_private_sanitize count_document_def)

subsection \<open>The loop and the run on every input\<close>

text \<open>
  The lookup of line 211 fails for every message with real media, so a step of the loop
  either records a null path or leaves the loop. A loop that completes has counted and
  recorded each non-service message once; one left by an exception has counted one
  message more than it has recorded. No run of \<^verbatim>\<open>download_channel\<close> reaches the
  loop: a run whose channel resolves ends in the \<^verbatim>\<open>AttributeError\<close> of line 184,
  so a run changes neither the counters nor the records.
\<close>

lemma message_media_path_cases:
  "message_media_path k tr base_dir m st = (Some (Inr None), st)
   \<or> message_media_path k tr base_dir m st = (Some (Inl (AttributeError ''_download_media'')), st)"
  by (simp add: message_media_path_def no_private_download)

lemma record_message_counts:
  "messages (stats (record_message m path st)) = messages (stats st)
   \<and> length (messages_data (record_message m path st)) = Suc (length (messages_data st))"
  by (simp add: record_message_def Let_def)

lemma process_messages_counter:
  assumes "process_messages k tr base_dir ms st = (r, st')"
  shows "messages (stats st') - messages (stats st)
           = int (length (messages_data st')) - int (length (messages_data st))
             + (case r of Some (Inl e) \<Rightarrow> 1 | _ \<Rightarrow> 0)"
  using assms
proof (induction ms arbitrary: st)
  case Nil
  then show ?case by auto
next
  case (Cons m ms)
  show ?case
  proof (cases "service m")
    case True
    with Cons show ?thesis by simp
  next
    case False
    from message_media_path_cases [of k tr base_dir m "count_message st"]
    show ?thesis
    proof
      assume ok: "message_media_path k tr base_dir m (count_message st)
                    = (Some (Inr None), count_message st)"
      with False Cons.prems
      have "process_messages k tr base_dir ms (record_message m None (count_message st)) = (r, st')"
        by simp
      from Cons.IH [OF this] show ?thesis
        by (simp add: record_message_counts) (simp add: count_message_def)
    next
      assume ab: "message_media_path k tr base_dir m (count_message st)
                    = (Some (Inl (AttributeError ''_download_media'')), count_message st)"
      with False Cons.prems
      have "r = Some (Inl (AttributeError ''_download_media''))" and "st' = count_message st"
        by auto
      then show ?thesis
        by (simp add: count_message_def)
    qed
  qed
qed

lemma resolved_channel_run_raises:
  assumes "connect_raises rm = None" and "get_entity_result rm = Inr ch"
  shows "fst (download_channel k rm channel_username st)
           = Some (Inl (AttributeError ''_create_download_directory''))
       \<and> stats (snd (download_channel k rm channel_username st)) = stats st
       \<and> directories (snd (download_channel k rm channel_username st)) = directories st
       \<and> messages_json (snd (download_channel k rm channel_username st)) = messages_json st"
  using assms
  by (simp add: download_channel_def download_channel_try_def Let_def no_private_create)






subsection \<open>The three ways out of \<^verbatim>\<open>download_media\<close>\<close>

lemma download_media_success:
  assumes "download_media_try tr m base_dir st = (Inr r, st1)"
  shows "download_media k tr m base_dir st = (Some (Inr r), st1)"
  using assms by (subst download_media.simps) simp

lemma download_media_other_failure:
  assumes "download_media_try tr m base_dir st = (Inl e, st1)" and "\<not> is_rate_limit e"
  shows "download_media k tr m base_dir st =
           (Some (Inr None),
            st1\<lparr>logged := logged st1 @ [Error_downloading_media (msg_id m) e],
                stats := (stats st1)\<lparr>errors := errors (stats st1) + 1\<rparr>\<rparr>)"
  using assms by (subst download_media.simps) (cases e; simp add: is_rate_limit_def)

lemma download_media_rate_limited:
  assumes "download_media_try tr m base_dir st = (Inl (FloodWaitError n), st1)"
  shows "download_media k tr m base_dir st =
           (Some (Inl (AttributeError ''_download_media'')),
            st1\<lparr>logged := logged st1 @ [Warning_rate_limited n], sleeps := sleeps st1 @ [n]\<rparr>)"
  using assms by (subst download_media.simps) (simp add: no_private_download)

subsection \<open>Target paths\<close>












text \<open>
  Claim C7. For a document without declared filename the client is asked to fetch to
  \<^verbatim>\<open>file_{message_id}.{ext}\<close> in the subdirectory of the document's category, where
  \<open>ext\<close> is \<^verbatim>\<open>bin\<close> when the mime type has no \<^verbatim>\<open>/\<close> and otherwise what
  follows its \<^verbatim>\<open>/\<close> (the last one, should there be several); when the fetch
  succeeds that path is returned. The witness is message 42 with mime type
  \<^verbatim>\<open>video/mp4\<close>: the target is \<^verbatim>\<open>videos/file_42.mp4\<close>.
\<close>

theorem synthesized_filename:
  assumes "msg_media m = Some (MessageMediaDocument doc)"
    and "first_file_name (attributes doc) = None"
    and "mime = (case mime_type doc of Some t \<Rightarrow> t | None \<Rightarrow> [])"
    and "(CHR ''/'' \<notin> set mime \<and> ext = ''bin'')
         \<or> (\<exists>a. mime = a @ CHR ''/'' # ext \<and> CHR ''/'' \<notin> set ext)"
    and "target = path_str (path_div (path_div base_dir (document_subdir mime))
                              (''file_'' @ str_int (msg_id m) @ ''.'' @ ext))"
  shows "fetch_calls (snd (download_media k tr m base_dir st))
           = fetch_calls st @ [(msg_id m, target)]
    \<and> (tr (length (fetch_calls st)) = FetchOk
         \<longrightarrow> fst (download_media k tr m base_dir st) = Some (Inr (Some target)))"
proof -
  have ext: "(if CHR ''/'' \<in> set mime then last (split_on CHR ''/'' mime) else ''bin'') = ext"
    using assms(4) by (auto simp: last_split_on_append)
  let ?st1 = "st\<lparr>stats := count_document mime (stats st)\<rparr>"
  let ?st2 = "?st1\<lparr>fetch_calls := fetch_calls st @ [(msg_id m, target)]\<rparr>"
  have body: "download_media_try tr m base_dir st =
      (case tr (length (fetch_calls st)) of
         FetchOk \<Rightarrow> (Inr (Some target), ?st2)
       | FetchRaises e \<Rightarrow> (Inl e, ?st2))"
  proof -
    have m1: "(case mime_type doc of Some t \<Rightarrow> t | None \<Rightarrow> []) = mime"
      using assms(3) by simp
    show ?thesis
    proof (cases "CHR ''/'' \<in> set mime")
      case True
      with ext have "last (split_on CHR ''/'' mime) = ext" by simp
      with True show ?thesis
        unfolding download_media_try_def fetch_document_def client_download_media_def Let_def
        by (simp add: assms(1,2,5) m1 split: fetch_result.splits)
    next
      case False
      with ext have "ext = ''bin''" by simp
      with False show ?thesis
        unfolding download_media_try_def fetch_document_def client_download_media_def Let_def
        by (simp add: assms(1,2,5) m1 split: fetch_result.splits)
    qed
  qed
  show ?thesis
  proof (cases "tr (length (fetch_calls st))")
    case FetchOk
    with body have "download_media_try tr m base_dir st = (Inr (Some target), ?st2)"
      by simp
    from download_media_success [OF this, of k] FetchOk show ?thesis by simp
  next
    case (FetchRaises e)
    with body have b: "download_media_try tr m base_dir st = (Inl e, ?st2)"
      by simp
    show ?thesis
    proof (cases "is_rate_limit e")
      case True
      then obtain n where "e = FloodWaitError n"
        by (cases e) (auto simp: is_rate_limit_def)
      with b download_media_rate_limited [of tr m base_dir st n ?st2 k] FetchRaises
      show ?thesis by simp
    next
      case False
      from download_media_other_failure [OF b False, of k] FetchRaises
      show ?thesis by simp
    qed
  qed
qed

theorem synthesized_filename_witness:
  "fetch_calls (snd (download_media 0 (\<lambda>n. FetchOk) video_42 news_dir initial_state))
     = [(42, ''downloads/News_20240101_000000/videos/file_42.mp4'')]
   \<and> fst (download_media 0 (\<lambda>n. FetchOk) video_42 news_dir initial_state)
     = Some (Inr (Some ''downloads/News_20240101_000000/videos/file_42.mp4''))"
proof -
  let ?doc = "\<lparr>mime_type = Some ''video/mp4'', attributes = [DocumentAttributeOther]\<rparr>"
  have a1: "msg_media video_42 = Some (MessageMediaDocument ?doc)"
    by (simp add: video_42_def media_message_def)
  have a2: "first_file_name (attributes ?doc) = None"
    by simp
  have a3: "''video/mp4'' = (case mime_type ?doc of Some t \<Rightarrow> t | None \<Rightarrow> [])"
    by simp
  have a4: "(CHR ''/'' \<notin> set ''video/mp4'' \<and> ''mp4'' = ''bin'')
         \<or> (\<exists>a. ''video/mp4'' = a @ CHR ''/'' # ''mp4'' \<and> CHR ''/'' \<notin> set ''mp4'')"
    by simp
  have a5: "''downloads/News_20240101_000000/videos/file_42.mp4''
      = path_str (path_div (path_div news_dir (document_subdir ''video/mp4''))
                              (''file_'' @ str_int (msg_id video_42) @ ''.'' @ ''mp4''))"
    by (simp add: video_42_def media_message_def news_dir_def parse_path_def path_div_def
        path_str_def document_subdir_def str_int_def str_nat.simps digit_char_def)
  from synthesized_filename [OF a1 a2 a3 a4 a5, of 0 "\<lambda>n. FetchOk" initial_state]
  show ?thesis
    by (simp add: initial_state_def video_42_def media_message_def)
qed

subsection \<open>Messages without real media\<close>

text \<open>
  Claim C9. For a message whose media is a web page preview, or that has no media,
  \<^verbatim>\<open>download_media\<close> returns a null path and leaves the state as it was, and the loop
  of \<^verbatim>\<open>download_channel\<close> counts the message and appends a record with a null media
  path without any call of the client's fetch.
\<close>

theorem no_fetch_without_real_media:
  assumes "msg_media m = None \<or> msg_media m = Some MessageMediaWebPage"
  shows "download_media k tr m base_dir st = (Some (Inr None), st)
    \<and> (\<not> service m \<longrightarrow>
         process_messages k tr base_dir (m # ms) st
           = process_messages k tr base_dir ms (record_message m None (count_message st)))
    \<and> fetch_calls (record_message m None (count_message st)) = fetch_calls st
    \<and> messages_data (record_message m None (count_message st))
        = messages_data st @
            [\<lparr>rec_id = msg_id m, rec_date = msg_date m,
              rec_text = (case msg_text m of None \<Rightarrow> [] | Some t \<Rightarrow> t),
              media_path = None, rec_views = msg_views m, rec_forwards = msg_forwards m\<rparr>]"
proof -
  have "download_media_try tr m base_dir st = (Inr None, st)"
    using assms by (auto simp: download_media_try_def)
  then have a: "download_media k tr m base_dir st = (Some (Inr None), st)"
    by (subst download_media.simps) simp
  have b: "message_media_path k tr base_dir m st' = (Some (Inr None), st')" for st'
    using assms by (auto simp: message_media_path_def)
  have c: "fetch_calls (record_message m None (count_message st)) = fetch_calls st"
    by (simp add: record_message_def count_message_def Let_def)
  have d: "messages_data (record_message m None (count_message st))
        = messages_data st @
            [\<lparr>rec_id = msg_id m, rec_date = msg_date m,
              rec_text = (case msg_text m of None \<Rightarrow> [] | Some t \<Rightarrow> t),
              media_path = None, rec_views = msg_views m, rec_forwards = msg_forwards m\<rparr>]"
    by (simp add: record_message_def count_message_def Let_def)
  from a b c d show ?thesis by simp
qed

theorem no_fetch_without_real_media_witness:
  "(msg_media (media_message 7 MessageMediaWebPage) = None
      \<or> msg_media (media_message 7 MessageMediaWebPage) = Some MessageMediaWebPage)
   \<and> \<not> service (media_message 7 MessageMediaWebPage)
   \<and> download_media 0 flood_once (media_message 7 MessageMediaWebPage) news_dir initial_state
       = (Some (Inr None), initial_state)
   \<and> fst (process_messages 0 flood_once news_dir [media_message 7 MessageMediaWebPage]
             initial_state) = Some (Inr ())
   \<and> map media_path (messages_data (snd (process_messages 0 flood_once news_dir
                         [media_message 7 MessageMediaWebPage] initial_state))) = [None]
   \<and> fetch_calls (snd (process_messages 0 flood_once news_dir
                         [media_message 7 MessageMediaWebPage] initial_state)) = []"
proof -
  have h: "msg_media (media_message 7 MessageMediaWebPage) = None
      \<or> msg_media (media_message 7 MessageMediaWebPage) = Some MessageMediaWebPage"
    by (simp add: media_message_def)
  have s: "\<not> service (media_message 7 MessageMediaWebPage)"
    by (simp add: media_message_def)
  from no_fetch_without_real_media [OF h, of 0 flood_once news_dir initial_state "[]"] h s
  show ?thesis
    by (simp add: initial_state_def)
qed

subsection \<open>Resolution failure\<close>

text \<open>
  Claim C6. When the client connects and the channel does not resolve,
  \<^verbatim>\<open>download_channel\<close> reports the failure and returns: no directory is made, no
  counter changes, nothing is fetched or recorded, and the client is disconnected.
\<close>

theorem unresolved_channel_aborts:
  assumes "connect_raises rm = None" and "get_entity_result rm = Inl e"
  shows "fst (download_channel k rm channel_username st) = Some (Inr ())
    \<and> directories (snd (download_channel k rm channel_username st)) = directories st
    \<and> stats (snd (download_channel k rm channel_username st)) = stats st
    \<and> fetch_calls (snd (download_channel k rm channel_username st)) = fetch_calls st
    \<and> messages_data (snd (download_channel k rm channel_username st)) = messages_data st
    \<and> messages_txt (snd (download_channel k rm channel_username st)) = messages_txt st
    \<and> messages_json (snd (download_channel k rm channel_username st)) = messages_json st
    \<and> last (logged (snd (download_channel k rm channel_username st)))
        = Error_could_not_find_channel
            (if startswith channel_username ''@'' then drop 1 channel_username
             else channel_username) e
    \<and> \<not> connected (snd (download_channel k rm channel_username st))"
  using assms by (simp add: download_channel_def download_channel_try_def Let_def)

theorem unresolved_channel_aborts_witness:
  "connect_raises unresolved_channel = None
   \<and> get_entity_result unresolved_channel = Inl (OtherException ''no such channel'')
   \<and> fst (download_channel 0 unresolved_channel ''@news'' initial_state) = Some (Inr ())
   \<and> directories (snd (download_channel 0 unresolved_channel ''@news'' initial_state)) = []
   \<and> messages (stats (snd (download_channel 0 unresolved_channel ''@news'' initial_state))) = 0
   \<and> last (logged (snd (download_channel 0 unresolved_channel ''@news'' initial_state)))
       = Error_could_not_find_channel ''news'' (OtherException ''no such channel'')"
proof -
  have c: "connect_raises unresolved_channel = None"
    by (simp add: unresolved_channel_def)
  have g: "get_entity_result unresolved_channel = Inl (OtherException ''no such channel'')"
    by (simp add: unresolved_channel_def)
  show ?thesis
    using c g unresolved_channel_aborts [OF c g, of 0 "''@news''" initial_state]
    by (simp add: initial_state_def)
qed

subsection \<open>Counters on failure\<close>

lemma document_try_failure:
  assumes "msg_media m = Some (MessageMediaDocument doc)"
    and "tr (length (fetch_calls st)) = FetchRaises e"
  shows "\<exists>e' st1. download_media_try tr m base_dir st = (Inl e', st1)
           \<and> (e' = e \<or> e' = AttributeError ''_sanitize_filename'')
           \<and> stats st1 = count_document (case mime_type doc of Some t \<Rightarrow> t | None \<Rightarrow> []) (stats st)"
  using assms
  by (auto simp: download_media_try_def fetch_document_def client_download_media_def Let_def
      no_private_sanitize split: option.splits)

text \<open>
  Claim C10. For a document message whose fetch fails with an error that is not a rate
  limit, the counter of the document's category stays incremented and \<open>errors\<close> is
  incremented too; for a photo message such a failure increments \<open>errors\<close> only, and
  \<open>photos\<close> is incremented when the fetch succeeds.
\<close>

theorem counters_not_rolled_back:
  "(msg_media m = Some (MessageMediaDocument doc)
      \<and> tr (length (fetch_calls st)) = FetchRaises e \<and> \<not> is_rate_limit e
    \<longrightarrow> fst (download_media k tr m base_dir st) = Some (Inr None)
      \<and> stats (snd (download_media k tr m base_dir st))
          = (count_document (case mime_type doc of Some t \<Rightarrow> t | None \<Rightarrow> []) (stats st))
              \<lparr>errors := errors (stats st) + 1\<rparr>)
   \<and> (msg_media m = Some MessageMediaPhoto
      \<and> tr (length (fetch_calls st)) = FetchRaises e \<and> \<not> is_rate_limit e
    \<longrightarrow> fst (download_media k tr m base_dir st) = Some (Inr None)
      \<and> stats (snd (download_media k tr m base_dir st))
          = (stats st)\<lparr>errors := errors (stats st) + 1\<rparr>)
   \<and> (msg_media m = Some MessageMediaPhoto \<and> tr (length (fetch_calls st)) = FetchOk
    \<longrightarrow> stats (snd (download_media k tr m base_dir st))
          = (stats st)\<lparr>photos := photos (stats st) + 1\<rparr>)"
proof (intro conjI impI)
  assume h: "msg_media m = Some (MessageMediaDocument doc)
      \<and> tr (length (fetch_calls st)) = FetchRaises e \<and> \<not> is_rate_limit e"
  let ?mime = "case mime_type doc of Some t \<Rightarrow> t | None \<Rightarrow> []"
  from h document_try_failure [of m doc tr st e base_dir]
  obtain e' st1 where body: "download_media_try tr m base_dir st = (Inl e', st1)"
    and e': "e' = e \<or> e' = AttributeError ''_sanitize_filename''"
    and s: "stats st1 = count_document ?mime (stats st)"
    by blast
  from h e' have "\<not> is_rate_limit e'"
    by (auto simp: is_rate_limit_def)
  note r = download_media_other_failure [OF body this, of k]
  show "fst (download_media k tr m base_dir st) = Some (Inr None)"
    by (simp add: r)
  show "stats (snd (download_media k tr m base_dir st))
          = (count_document ?mime (stats st))\<lparr>errors := errors (stats st) + 1\<rparr>"
    by (simp add: r s count_document_def)
next
  assume h: "msg_media m = Some MessageMediaPhoto
      \<and> tr (length (fetch_calls st)) = FetchRaises e \<and> \<not> is_rate_limit e"
  then obtain st1 where body: "download_media_try tr m base_dir st = (Inl e, st1)"
    and s: "stats st1 = stats st"
    by (auto simp: download_media_try_def client_download_media_def Let_def)
  from h have "\<not> is_rate_limit e" by simp
  note r = download_media_other_failure [OF body this, of k]
  show "fst (download_media k tr m base_dir st) = Some (Inr None)"
    by (simp add: r)
  show "stats (snd (download_media k tr m base_dir st))
          = (stats st)\<lparr>errors := errors (stats st) + 1\<rparr>"
    by (simp add: r s)
next
  assume h: "msg_media m = Some MessageMediaPhoto \<and> tr (length (fetch_calls st)) = FetchOk"
  then obtain r st1 where body: "download_media_try tr m base_dir st = (Inr r, st1)"
    and s: "stats st1 = (stats st)\<lparr>photos := photos (stats st) + 1\<rparr>"
    by (auto simp: download_media_try_def client_download_media_def Let_def)
  show "stats (snd (download_media k tr m base_dir st))
          = (stats st)\<lparr>photos := photos (stats st) + 1\<rparr>"
    by (simp add: download_media_success [OF body] s)
qed

theorem counters_not_rolled_back_witness:
  "stats (snd (download_media 0 (\<lambda>n. FetchRaises (OtherException ''timeout'')) video_42
                 news_dir initial_state))
     = \<lparr>messages = 0, photos = 0, videos = 1, documents = 0, audio = 0, errors = 1\<rparr>
   \<and> stats (snd (download_media 0 (\<lambda>n. FetchRaises (OtherException ''timeout''))
                   (media_message 7 MessageMediaPhoto) news_dir initial_state))
     = \<lparr>messages = 0, photos = 0, videos = 0, documents = 0, audio = 0, errors = 1\<rparr>
   \<and> stats (snd (download_media 0 (\<lambda>n. FetchOk) (media_message 7 MessageMediaPhoto)
                   news_dir initial_state))
     = \<lparr>messages = 0, photos = 1, videos = 0, documents = 0, audio = 0, errors = 0\<rparr>"
proof -
  let ?doc = "\<lparr>mime_type = Some ''video/mp4'', attributes = [DocumentAttributeOther]\<rparr>"
  let ?fail = "\<lambda>n::nat. FetchRaises (OtherException ''timeout'')"
  have d: "msg_media video_42 = Some (MessageMediaDocument ?doc)
      \<and> ?fail (length (fetch_calls initial_state)) = FetchRaises (OtherException ''timeout'')
      \<and> \<not> is_rate_limit (OtherException ''timeout'')"
    by (simp add: video_42_def media_message_def is_rate_limit_def)
  have p: "msg_media (media_message 7 MessageMediaPhoto) = Some MessageMediaPhoto
      \<and> ?fail (length (fetch_calls initial_state)) = FetchRaises (OtherException ''timeout'')
      \<and> \<not> is_rate_limit (OtherException ''timeout'')"
    by (simp add: media_message_def is_rate_limit_def)
  have q: "msg_media (media_message 7 MessageMediaPhoto) = Some MessageMediaPhoto
      \<and> (\<lambda>n::nat. FetchOk) (length (fetch_calls initial_state)) = FetchOk"
    by (simp add: media_message_def)
  from d counters_not_rolled_back [of video_42 ?doc ?fail initial_state
      "OtherException ''timeout''" 0 news_dir]
  have 1: "stats (snd (download_media 0 ?fail video_42 news_dir initial_state))
     = \<lparr>messages = 0, photos = 0, videos = 1, documents = 0, audio = 0, errors = 1\<rparr>"
    by (simp add: initial_state_def count_document_def)
  from p counters_not_rolled_back [of "media_message 7 MessageMediaPhoto" ?doc ?fail
      initial_state "OtherException ''timeout''" 0 news_dir]
  have 2: "stats (snd (download_media 0 ?fail (media_message 7 MessageMediaPhoto) news_dir
                         initial_state))
     = \<lparr>messages = 0, photos = 0, videos = 0, documents = 0, audio = 0, errors = 1\<rparr>"
    by (simp add: initial_state_def)
  from q counters_not_rolled_back [of "media_message 7 MessageMediaPhoto" ?doc
      "\<lambda>n. FetchOk" initial_state "OtherException ''timeout''" 0 news_dir]
  have 3: "stats (snd (download_media 0 (\<lambda>n. FetchOk) (media_message 7 MessageMediaPhoto)
                         news_dir initial_state))
     = \<lparr>messages = 0, photos = 1, videos = 0, documents = 0, audio = 0, errors = 0\<rparr>"
    by (simp add: initial_state_def)
  from 1 2 3 show ?thesis by simp
qed

end
